theory Spec2Isabelle
  imports Main "HOL-Library.Word"
begin

unbundle bit_operations_syntax

section \<open>Common types\<close>

text \<open>
  The STM32MP1 is a 32-bit (AArch32) platform: \<open>uint32_t\<close>, \<open>uintptr_t\<close>,
  \<open>unsigned int\<close> and \<open>int\<close> are all 32 bits wide. Unsigned values are read with
  \<open>unat\<close> and compared with the (unsigned) order of words; a C \<open>int\<close> is a
  32-bit word read with \<open>sint\<close>.
\<close>

type_synonym u32 = "32 word"
type_synonym u16 = "16 word"
type_synonym s32 = "32 word"

text \<open>
  Ways in which a call does not return to its caller: \<open>panic()\<close>, a failed
  \<open>assert\<close>, and the dereference of a pointer that is \<open>NULL\<close>.
\<close>

datatype fault = Panic | AssertFailed | NullDereference

section \<open>Anti-rollback counter: \<open>update_monotonic_counter\<close>\<close>

text \<open>
  The security element as \<open>update_monotonic_counter\<close> sees it.
  \<^item> \<open>monotonic_otp_index\<close>: the word index that
    \<open>stm32_get_otp_index(MONOTONIC_OTP, &otp, NULL)\<close> stores in \<open>otp\<close>, or \<open>None\<close>
    when that call returns non-zero;
  \<^item> \<open>otp_value_ok\<close>: whether \<open>stm32_get_otp_value(MONOTONIC_OTP, &version)\<close>
    returns 0;
  \<^item> \<open>fuses\<close>: the content of the one-time-programmable words, by index;
  \<^item> \<open>program_result\<close>: the status \<open>bsec_program_otp(val, otp)\<close> returns;
  \<^item> \<open>programmed\<close>: every call \<open>bsec_program_otp(val, otp)\<close> made so far, oldest
    first, as \<open>(val, otp)\<close>.
\<close>

record bsec =
  monotonic_otp_index :: "u32 option"
  otp_value_ok :: bool
  fuses :: "u32 \<Rightarrow> u32"
  program_result :: "u32 \<Rightarrow> u32 \<Rightarrow> u32"
  programmed :: "(u32 \<times> u32) list"

text \<open>\<open>BSEC_OK\<close> is defined in \<open>drivers/st/bsec.h\<close> as \<open>0U\<close>.\<close>

definition BSEC_OK :: u32 where
  "BSEC_OK = 0"

text \<open>
  \<open>BIT(nr)\<close> is \<open>1U << nr\<close> on 32 bits. For \<open>nr \<ge> 32\<close> the C shift is
  undefined; \<open>push_bit\<close> gives 0 there.
\<close>

definition BIT :: "nat \<Rightarrow> u32" where
  "BIT nr = push_bit nr 1"

definition stm32_get_otp_index :: "bsec \<Rightarrow> u32 option" where
  "stm32_get_otp_index b = monotonic_otp_index b"

text \<open>
  Modelled from the spec: \<open>stm32_get_otp_value\<close> is defined in another file of the
  platform; it is the non-volatile storage accessor \<open>read_fuse(slot) -> uint\<close>, which reads the persisted
  counter value from the one-time-programmable word named \<open>MONOTONIC_OTP\<close>.
\<close>

definition stm32_get_otp_value :: "bsec \<Rightarrow> u32 option" where
  "stm32_get_otp_value b =
     (case monotonic_otp_index b of
        None \<Rightarrow> None
      | Some i \<Rightarrow> if otp_value_ok b then Some (fuses b i) else None)"

text \<open>
  Modelled from the spec: \<open>bsec_program_otp\<close> is defined in the BSEC driver; it is the
  accessor \<open>write_fuse(slot, value) -> Result\<close> on storage whose bits "can transition
  in one direction only and cannot be erased": a successful programming sets, in the
  word \<open>otp\<close>, the bits that are set in \<open>val\<close>. Every call is recorded.
\<close>

definition bsec_program_otp :: "u32 \<Rightarrow> u32 \<Rightarrow> bsec \<Rightarrow> u32 \<times> bsec" where
  "bsec_program_otp val otp b =
     (program_result b val otp,
      b\<lparr>fuses := (if program_result b val otp = BSEC_OK
                  then (fuses b)(otp := fuses b otp OR val) else fuses b),
        programmed := programmed b @ [(val, otp)]\<rparr>)"

text \<open>
  \<open>update_monotonic_counter\<close>, with the build-time constant \<open>STM32_TF_VERSION\<close> as
  its first argument. The \<open>CASSERT(STM32_TF_VERSION <= MAX_MONOTONIC_VALUE)\<close> is checked
  when the firmware is built and is not part of the run.
\<close>

definition update_monotonic_counter :: "nat \<Rightarrow> bsec \<Rightarrow> fault + bsec" where
  "update_monotonic_counter STM32_TF_VERSION b =
     (case stm32_get_otp_index b of
        None \<Rightarrow> Inl Panic
      | Some otp \<Rightarrow>
          (case stm32_get_otp_value b of
             None \<Rightarrow> Inl Panic
           | Some version \<Rightarrow>
               if version + 1 < BIT STM32_TF_VERSION then
                 (let version' = BIT STM32_TF_VERSION - 1;
                      (result, b') = bsec_program_otp version' otp b
                  in if result \<noteq> BSEC_OK then Inl Panic else Inr b')
               else Inr b))"

text \<open>The persisted counter: the fuse word of \<open>MONOTONIC_OTP\<close>.\<close>

definition persisted_counter :: "bsec \<Rightarrow> u32 option" where
  "persisted_counter b = map_option (fuses b) (monotonic_otp_index b)"

text \<open>
  A device whose monotonic counter word (index 4 here) has all its 32 bits programmed,
  and whose security element works.
\<close>

definition bsec_all_fused :: bsec where
  "bsec_all_fused =
     \<lparr>monotonic_otp_index = Some 4, otp_value_ok = True,
      fuses = (\<lambda>i. if i = 4 then 0xFFFFFFFF else 0),
      program_result = (\<lambda>val otp. BSEC_OK), programmed = []\<rparr>"

text \<open>Two boots in a row, the second seeing the fuses as the first left them.\<close>

definition two_boots :: "nat \<Rightarrow> nat \<Rightarrow> bsec \<Rightarrow> fault + bsec" where
  "two_boots V V' b =
     (case update_monotonic_counter V b of
        Inl f \<Rightarrow> Inl f
      | Inr b' \<Rightarrow> update_monotonic_counter V' b')"

text \<open>The same device with a blank counter word.\<close>

definition bsec_fresh :: bsec where
  "bsec_fresh = bsec_all_fused\<lparr>fuses := (\<lambda>i. 0)\<rparr>"

section \<open>Clock and voltage selection: \<open>initialize_clock\<close>\<close>

text \<open>
  What \<open>initialize_clock\<close> does to the outside, in the order in which it does it: the
  calls it makes to the context store, to the two operating-point lookups, to the
  regulator driver and to the clock driver.
\<close>

datatype clk_event =
    GetPll1SettingsFromContext
  | ClkGetMaxfreqOpp
  | DtGetMaxOppFreqvolt
  | RegulatorVoltageGet string
  | RegulatorVoltageSet string u16
  | ClkInit u32

text \<open>
  The collaborators of \<open>initialize_clock\<close>, none of which is defined in
  \<open>bl2_plat_setup.c\<close>. Each field is what the call of that name answers:
  \<^item> \<open>is_wakeup_from_standby\<close>: \<open>stm32mp1_is_wakeup_from_standby()\<close>, read twice by
    the function and taken to answer the same both times;
  \<^item> \<open>get_pll1_settings_from_context\<close>: the status of
    \<open>stm32_get_pll1_settings_from_context()\<close>;
  \<^item> \<open>is_pll1_predefined\<close>: \<open>fdt_is_pll1_predefined()\<close>;
  \<^item> \<open>clk_get_maxfreq_opp\<close> and \<open>dt_get_max_opp_freqvolt\<close>: the status of the
    call and the values it stores in \<open>freq_khz\<close> and \<open>voltage_mv\<close>;
  \<^item> \<open>dt_pmic_status\<close>: \<open>dt_pmic_status()\<close>;
  \<^item> \<open>get_cpu_supply_name\<close>: \<open>stm32mp_get_cpu_supply_name()\<close>, \<open>None\<close> for
    \<open>NULL\<close>;
  \<^item> \<open>regulator_voltage_get\<close>, \<open>regulator_voltage_set\<close>: the values returned by
    \<open>stpmic1_regulator_voltage_get(name)\<close> and
    \<open>stpmic1_regulator_voltage_set(name, millivolts)\<close>;
  \<^item> \<open>clk_init\<close>: the value returned by \<open>stm32mp1_clk_init(freq_khz)\<close>.
\<close>

record clk_platform =
  is_wakeup_from_standby :: bool
  get_pll1_settings_from_context :: s32
  is_pll1_predefined :: bool
  clk_get_maxfreq_opp :: "s32 \<times> u32 \<times> u32"
  dt_get_max_opp_freqvolt :: "s32 \<times> u32 \<times> u32"
  dt_pmic_status :: s32
  get_cpu_supply_name :: "string option"
  regulator_voltage_get :: "string \<Rightarrow> s32"
  regulator_voltage_set :: "string \<Rightarrow> u16 \<Rightarrow> s32"
  clk_init :: "u32 \<Rightarrow> s32"

datatype outcome = Returned | Panicked

text \<open>The last statement of the function: \<open>if (stm32mp1_clk_init(freq_khz) < 0) panic();\<close>\<close>

definition apply_clk_init :: "clk_platform \<Rightarrow> u32 \<Rightarrow> clk_event list \<Rightarrow> clk_event list \<times> outcome" where
  "apply_clk_init p freq_khz tr =
     (tr @ [ClkInit freq_khz], if sint (clk_init p freq_khz) < 0 then Panicked else Returned)"

text \<open>
  The block \<open>if (dt_pmic_status() > 0) { ... }\<close>, followed by the last statement.
  \<open>(uint32_t)read_voltage\<close> is the same 32-bit word read as unsigned;
  \<open>(uint16_t)voltage_mv\<close> keeps the low 16 bits.
\<close>

definition set_cpu_supply :: "clk_platform \<Rightarrow> u32 \<Rightarrow> u32 \<Rightarrow> clk_event list \<Rightarrow> clk_event list \<times> outcome" where
  "set_cpu_supply p freq_khz voltage_mv tr =
     (if 0 < sint (dt_pmic_status p) then
        (case get_cpu_supply_name p of
           None \<Rightarrow> (tr, Panicked)
         | Some name \<Rightarrow>
             (let read_voltage = regulator_voltage_get p name;
                  tr1 = tr @ [RegulatorVoltageGet name]
              in if sint read_voltage < 0 then (tr1, Panicked)
                 else if voltage_mv \<noteq> read_voltage then
                   (let tr2 = tr1 @ [RegulatorVoltageSet name (ucast voltage_mv)]
                    in if regulator_voltage_set p name (ucast voltage_mv) \<noteq> 0
                       then (tr2, Panicked)
                       else apply_clk_init p freq_khz tr2)
                 else apply_clk_init p freq_khz tr1))
      else apply_clk_init p freq_khz tr)"

text \<open>
  \<open>initialize_clock\<close>: the events of the run, oldest first, and whether the function
  returned or called \<open>panic()\<close>.
\<close>

definition initialize_clock :: "clk_platform \<Rightarrow> clk_event list \<times> outcome" where
  "initialize_clock p =
     (let (ret, tr) =
            (if is_wakeup_from_standby p
             then (get_pll1_settings_from_context p, [GetPll1SettingsFromContext])
             else (0, []))
      in if ret = 0 \<and> \<not> is_pll1_predefined p then
           (let (ret', freq_khz, voltage_mv) =
                  (if is_wakeup_from_standby p then clk_get_maxfreq_opp p
                   else dt_get_max_opp_freqvolt p);
                tr' = tr @ [if is_wakeup_from_standby p then ClkGetMaxfreqOpp
                            else DtGetMaxOppFreqvolt]
            in if ret' \<noteq> 0 then (tr', Panicked)
               else set_cpu_supply p freq_khz voltage_mv tr')
         else apply_clk_init p 0 tr)"

text \<open>
  The two lookups that the comment in \<open>initialize_clock\<close> describes together as "find
  the highest frequency in the OPP table (in DT, compatible with platform capabilities,
  or in structure restored in RAM)".
\<close>

fun is_opp_search :: "clk_event \<Rightarrow> bool" where
  "is_opp_search ClkGetMaxfreqOpp = True"
| "is_opp_search DtGetMaxOppFreqvolt = True"
| "is_opp_search _ = False"

fun is_regulator_write :: "clk_event \<Rightarrow> bool" where
  "is_regulator_write (RegulatorVoltageSet name mv) = True"
| "is_regulator_write _ = False"

fun is_clk_init :: "clk_event \<Rightarrow> bool" where
  "is_clk_init (ClkInit f) = True"
| "is_clk_init _ = False"

text \<open>A board with a PMIC whose regulator and clock driver work.\<close>

definition board :: clk_platform where
  "board =
     \<lparr>is_wakeup_from_standby = False, get_pll1_settings_from_context = 0,
      is_pll1_predefined = False,
      clk_get_maxfreq_opp = (0, 650000, 1200),
      dt_get_max_opp_freqvolt = (0, 1200000, 1350),
      dt_pmic_status = 1, get_cpu_supply_name = Some ''buck1'',
      regulator_voltage_get = (\<lambda>name. 1200),
      regulator_voltage_set = (\<lambda>name mv. 0),
      clk_init = (\<lambda>f. 0)\<rparr>"

text \<open>The same board waking up from standby, and waking up with a lost context.\<close>

definition board_resume :: clk_platform where
  "board_resume = board\<lparr>is_wakeup_from_standby := True\<rparr>"

definition board_resume_lost :: clk_platform where
  "board_resume_lost = board_resume\<lparr>get_pll1_settings_from_context := - 1\<rparr>"

section \<open>Post-load image resolver: \<open>bl2_plat_handle_post_image_load\<close>\<close>

text \<open>
  The function is modelled as it is compiled when \<open>STM32MP_USE_STM32IMAGE\<close> is 0 (the
  firmware is loaded from a FIP): only then do the \<open>FW_CONFIG_ID\<close> case, the flag
  \<open>wakeup_ddr_sr\<close> and the accounting of the \<open>TOS_FW_CONFIG_ID\<close> image exist.

  Image identifiers are \<open>unsigned int\<close> constants of a header of the firmware; the
  ones the function names are distinct constructors, every other number is
  \<open>OTHER_IMAGE_ID\<close>.
\<close>

datatype image_id =
    FW_CONFIG_ID
  | BL32_IMAGE_ID
  | BL32_EXTRA1_IMAGE_ID
  | BL32_EXTRA2_IMAGE_ID
  | BL33_IMAGE_ID
  | HW_CONFIG_ID
  | TOS_FW_CONFIG_ID
  | OTHER_IMAGE_ID nat

text \<open>
  The fields of \<open>entry_point_info_t\<close>, \<open>image_info_t\<close>, \<open>bl_mem_params_node_t\<close>
  and \<open>struct dyn_cfg_dtb_info_t\<close> that the function reads or writes: \<open>attr\<close> is
  \<open>image_info.h.attr\<close>, \<open>arg0\<close> is \<open>ep_info.args.arg0\<close>.
\<close>

record entry_point_info_t =
  pc :: u32
  lr_svc :: u32
  arg0 :: u32
  arg1 :: u32
  arg2 :: u32

record image_info_t =
  attr :: u32
  image_base :: u32
  image_max_size :: u32

record bl_mem_params_node_t =
  ep_info :: entry_point_info_t
  image_info :: image_info_t

record dyn_cfg_dtb_info_t =
  config_addr :: u32
  config_max_size :: u32

text \<open>
  Constants of the platform and of the firmware's headers that the function uses; their
  values are not fixed by \<open>bl2_plat_setup.c\<close>.
\<close>

record platform_def =
  STM32MP_DDR_BASE :: u32
  STM32MP_DDR_S_SIZE :: u32
  STM32MP_FW_CONFIG_BASE :: u32
  STM32MP_FW_CONFIG_MAX_SIZE :: u32
  IMAGE_ATTRIB_SKIP_LOADING :: u32

text \<open>\<open>EINVAL\<close> of \<open>errno.h\<close>.\<close>

definition EINVAL :: s32 where
  "EINVAL = 22"

text \<open>
  The collaborators of the resolver, none of which is defined in \<open>bl2_plat_setup.c\<close>:
  \<^item> \<open>ddr_is_restored\<close>: \<open>stm32mp1_ddr_is_restored()\<close>, the value of
    \<open>wakeup_ddr_sr\<close>;
  \<^item> \<open>dyn_cfg_dtb\<close>: \<open>FCONF_GET_PROPERTY(dyn_cfg, dtb, id)\<close> once \<open>FW_CONFIG\<close> has
    been populated, \<open>None\<close> for \<open>NULL\<close>;
  \<^item> \<open>dt_get_ddr_size\<close>: \<open>dt_get_ddr_size()\<close>;
  \<^item> \<open>get_optee_header_ep\<close>: \<open>get_optee_header_ep(&ep_info, &ep_info.pc)\<close>:
    \<open>Some pc'\<close> when it returns 1, having stored \<open>pc'\<close> in \<open>ep_info.pc\<close>,
    \<open>None\<close> when it does not, leaving \<open>ep_info.pc\<close> as it was;
  \<^item> \<open>pm_get_optee_ep\<close>: \<open>stm32_pm_get_optee_ep()\<close>;
  \<^item> \<open>addr_inside_backupsram\<close>: \<open>stm32mp1_addr_inside_backupsram(addr)\<close>;
  \<^item> \<open>parse_optee_header\<close>: the status of \<open>parse_optee_header\<close> and what it leaves
    in the entry point information and the two image informations it is given.
\<close>

record bl2_platform =
  ddr_is_restored :: bool
  dyn_cfg_dtb :: "image_id \<Rightarrow> dyn_cfg_dtb_info_t option"
  dt_get_ddr_size :: u32
  get_optee_header_ep :: "entry_point_info_t \<Rightarrow> u32 option"
  pm_get_optee_ep :: u32
  addr_inside_backupsram :: "u32 \<Rightarrow> bool"
  parse_optee_header ::
    "entry_point_info_t \<Rightarrow> image_info_t \<Rightarrow> image_info_t \<Rightarrow>
     s32 \<times> entry_point_info_t \<times> image_info_t \<times> image_info_t"

text \<open>What the resolver does besides writing descriptors, in order.\<close>

datatype bl2_event =
    SetConfigInfo u32 u32 image_id
  | FconfPopulate string u32
  | ClkEnableBKPSRAM
  | ContextSaveBl2Param
  | FlushDcacheRange u32 u32

text \<open>
  The global image table (\<open>get_bl_mem_params_node(id)\<close> is \<open>nodes s id\<close>, \<open>None\<close>
  for \<open>NULL\<close>) and the actions performed so far.
\<close>

record bl2_state =
  nodes :: "image_id \<Rightarrow> bl_mem_params_node_t option"
  effects :: "bl2_event list"

text \<open>The array \<open>image_ids\<close> of the function.\<close>

definition image_ids :: "image_id list" where
  "image_ids = [BL32_IMAGE_ID, BL33_IMAGE_ID, HW_CONFIG_ID, TOS_FW_CONFIG_ID]"

text \<open>
  One turn of the loop \<open>for (i = 0; i < ARRAY_SIZE(image_ids); i++)\<close> for the
  identifier \<open>img = image_ids[i]\<close>. The answer is the table it leaves and \<open>Some r\<close> when
  the turn executes \<open>return r\<close>, \<open>None\<close> when the loop goes on (also after
  \<open>continue\<close>).
\<close>

definition fw_config_image ::
  "platform_def \<Rightarrow> bl2_platform \<Rightarrow> image_id \<Rightarrow>
   (image_id \<Rightarrow> bl_mem_params_node_t option) \<Rightarrow>
   fault + ((image_id \<Rightarrow> bl_mem_params_node_t option) \<times> s32 option)" where
  "fw_config_image pd env img t =
     (case t img of
        None \<Rightarrow> Inl AssertFailed
      | Some bl_mem_params \<Rightarrow>
          (case dyn_cfg_dtb env img of
             None \<Rightarrow> Inr (t, None)
           | Some config_info \<Rightarrow>
               (let info1 = (image_info bl_mem_params)
                      \<lparr>image_base := config_addr config_info,
                       image_max_size := config_max_size config_info\<rparr>;
                    info2 =
                      (if \<not> (ddr_is_restored env \<and>
                               STM32MP_DDR_BASE pd \<le> config_addr config_info)
                       then info1\<lparr>attr := attr info1 AND NOT (IMAGE_ATTRIB_SKIP_LOADING pd)\<rparr>
                       else info1);
                    node = bl_mem_params\<lparr>image_info := info2\<rparr>
                in case img of
                     BL32_IMAGE_ID \<Rightarrow>
                       (let t1 = t(img \<mapsto> node\<lparr>ep_info := (ep_info node)\<lparr>pc := config_addr config_info\<rparr>\<rparr>)
                        in case t1 BL32_EXTRA1_IMAGE_ID of
                             None \<Rightarrow> Inl NullDereference
                           | Some pager_mem_params \<Rightarrow>
                               (let t2 = t1(BL32_EXTRA1_IMAGE_ID \<mapsto> pager_mem_params
                                      \<lparr>image_info := (image_info pager_mem_params)
                                         \<lparr>image_base := config_addr config_info,
                                          image_max_size := config_max_size config_info\<rparr>\<rparr>)
                                in case t2 BL32_EXTRA2_IMAGE_ID of
                                     None \<Rightarrow> Inl NullDereference
                                   | Some paged_mem_params \<Rightarrow>
                                       Inr (t2(BL32_EXTRA2_IMAGE_ID \<mapsto> paged_mem_params
                                              \<lparr>image_info := (image_info paged_mem_params)
                                                 \<lparr>image_base := STM32MP_DDR_BASE pd +
                                                    (dt_get_ddr_size env - STM32MP_DDR_S_SIZE pd),
                                                  image_max_size := STM32MP_DDR_S_SIZE pd\<rparr>\<rparr>),
                                            None)))
                   | BL33_IMAGE_ID \<Rightarrow>
                       Inr (t(img \<mapsto> node\<lparr>ep_info := (ep_info node)
                               \<lparr>pc := (if ddr_is_restored env then 0
                                        else config_addr config_info)\<rparr>\<rparr>), None)
                   | HW_CONFIG_ID \<Rightarrow> Inr (t(img \<mapsto> node), None)
                   | TOS_FW_CONFIG_ID \<Rightarrow> Inr (t(img \<mapsto> node), None)
                   | _ \<Rightarrow> Inr (t(img \<mapsto> node), Some (- EINVAL)))))"

text \<open>The loop over an array of identifiers.\<close>

fun fw_config_loop ::
  "platform_def \<Rightarrow> bl2_platform \<Rightarrow> image_id list \<Rightarrow>
   (image_id \<Rightarrow> bl_mem_params_node_t option) \<Rightarrow>
   fault + ((image_id \<Rightarrow> bl_mem_params_node_t option) \<times> s32 option)" where
  "fw_config_loop pd env [] t = Inr (t, None)"
| "fw_config_loop pd env (img # imgs) t =
     (case fw_config_image pd env img t of
        Inl f \<Rightarrow> Inl f
      | Inr (t', Some r) \<Rightarrow> Inr (t', Some r)
      | Inr (t', None) \<Rightarrow> fw_config_loop pd env imgs t')"

text \<open>\<open>if (bl_mem_params->ep_info.pc >= STM32MP_DDR_BASE) stm32_context_save_bl2_param();\<close>\<close>

definition save_bl2_param_if_ddr :: "platform_def \<Rightarrow> u32 \<Rightarrow> bl2_state \<Rightarrow> bl2_state" where
  "save_bl2_param_if_ddr pd entry s =
     (if STM32MP_DDR_BASE pd \<le> entry
      then s\<lparr>effects := effects s @ [ContextSaveBl2Param]\<rparr> else s)"

text \<open>The \<open>case BL32_IMAGE_ID\<close> of the outer \<open>switch\<close>.\<close>

definition handle_bl32 ::
  "platform_def \<Rightarrow> bl2_platform \<Rightarrow> bl_mem_params_node_t \<Rightarrow> bl2_state \<Rightarrow>
   fault + (bl2_state \<times> s32)" where
  "handle_bl32 pd env bl_mem_params s =
     (let ep0 = (ep_info bl_mem_params)\<lparr>pc := image_base (image_info bl_mem_params)\<rparr>
      in case get_optee_header_ep env ep0 of
           Some pc' \<Rightarrow>
             if ddr_is_restored env then
               (let ep1 = ep0\<lparr>pc := pm_get_optee_ep env\<rparr>
                in Inr (s\<lparr>nodes := (nodes s)(BL32_IMAGE_ID \<mapsto> bl_mem_params\<lparr>ep_info := ep1\<rparr>),
                         effects := effects s @
                           (if addr_inside_backupsram env (pc ep1)
                            then [ClkEnableBKPSRAM] else [])\<rparr>, 0))
             else
               (case nodes s BL32_EXTRA1_IMAGE_ID of
                  None \<Rightarrow> Inl AssertFailed
                | Some pager_mem_params \<Rightarrow>
                    (case nodes s BL32_EXTRA2_IMAGE_ID of
                       None \<Rightarrow> Inl AssertFailed
                     | Some paged_mem_params \<Rightarrow>
                         (let (err, ep2, pager_info, paged_info) =
                                parse_optee_header env (ep0\<lparr>pc := pc'\<rparr>)
                                  (image_info pager_mem_params) (image_info paged_mem_params)
                          in if err \<noteq> 0 then Inl Panic
                             else
                               (let ep3 = ep2\<lparr>arg0 := image_base paged_info,
                                              arg1 := 0, arg2 := 0\<rparr>;
                                    t = (nodes s)
                                      (BL32_IMAGE_ID \<mapsto> bl_mem_params\<lparr>ep_info := ep3\<rparr>,
                                       BL32_EXTRA1_IMAGE_ID \<mapsto>
                                         pager_mem_params\<lparr>image_info := pager_info\<rparr>,
                                       BL32_EXTRA2_IMAGE_ID \<mapsto>
                                         paged_mem_params\<lparr>image_info := paged_info\<rparr>)
                                in Inr (save_bl2_param_if_ddr pd (pc ep3) (s\<lparr>nodes := t\<rparr>),
                                        err)))))
         | None \<Rightarrow>
             (case nodes s TOS_FW_CONFIG_ID of
                None \<Rightarrow> Inl NullDereference
              | Some tos_fw_mem_params \<Rightarrow>
                  (let node = bl_mem_params
                        \<lparr>ep_info := ep0\<lparr>arg0 := 0\<rparr>,
                         image_info := (image_info bl_mem_params)
                           \<lparr>image_max_size := image_max_size (image_info bl_mem_params) +
                              image_max_size (image_info tos_fw_mem_params)\<rparr>\<rparr>
                   in Inr (save_bl2_param_if_ddr pd (pc ep0)
                             (s\<lparr>nodes := (nodes s)(BL32_IMAGE_ID \<mapsto> node)\<rparr>), 0))))"

text \<open>
  The \<open>case FW_CONFIG_ID\<close> of the outer \<open>switch\<close>, for the array \<open>ids\<close> of
  dependent identifiers: the function runs it with \<open>image_ids\<close>. A loop that comes to
  its end is followed by \<open>break\<close> and \<open>return err\<close>, where \<open>err\<close> is still 0.
\<close>

definition handle_fw_config ::
  "platform_def \<Rightarrow> bl2_platform \<Rightarrow> image_id list \<Rightarrow> bl2_state \<Rightarrow>
   fault + (bl2_state \<times> s32)" where
  "handle_fw_config pd env ids s =
     (let s1 = s\<lparr>effects := effects s @
                 [SetConfigInfo (STM32MP_FW_CONFIG_BASE pd)
                    (STM32MP_FW_CONFIG_MAX_SIZE pd) FW_CONFIG_ID,
                  FconfPopulate ''FW_CONFIG'' (STM32MP_FW_CONFIG_BASE pd)]\<rparr>
      in case fw_config_loop pd env ids (nodes s1) of
           Inl f \<Rightarrow> Inl f
         | Inr (t, Some r) \<Rightarrow> Inr (s1\<lparr>nodes := t\<rparr>, r)
         | Inr (t, None) \<Rightarrow> Inr (s1\<lparr>nodes := t\<rparr>, 0))"

text \<open>
  \<open>bl2_plat_handle_post_image_load(image_id)\<close>: the state it leaves and the value it
  returns, or the fault that stops it.
\<close>

definition bl2_plat_handle_post_image_load ::
  "platform_def \<Rightarrow> bl2_platform \<Rightarrow> image_id \<Rightarrow> bl2_state \<Rightarrow> fault + (bl2_state \<times> s32)" where
  "bl2_plat_handle_post_image_load pd env image_id s =
     (case nodes s image_id of
        None \<Rightarrow> Inl AssertFailed
      | Some bl_mem_params \<Rightarrow>
          (case image_id of
             FW_CONFIG_ID \<Rightarrow> handle_fw_config pd env image_ids s
           | BL32_IMAGE_ID \<Rightarrow> handle_bl32 pd env bl_mem_params s
           | BL33_IMAGE_ID \<Rightarrow>
               (case nodes s BL32_IMAGE_ID of
                  None \<Rightarrow> Inl AssertFailed
                | Some bl32_mem_params \<Rightarrow>
                    Inr (s\<lparr>nodes := (nodes s)(BL32_IMAGE_ID \<mapsto> bl32_mem_params
                               \<lparr>ep_info := (ep_info bl32_mem_params)
                                  \<lparr>lr_svc := pc (ep_info bl_mem_params)\<rparr>\<rparr>),
                           effects := effects s @
                             [FlushDcacheRange (image_base (image_info bl_mem_params))
                                (image_max_size (image_info bl_mem_params))]\<rparr>, 0))
           | _ \<Rightarrow> Inr (s, 0)))"

section \<open>Example inputs of the resolver\<close>

text \<open>
  A platform whose DDR starts at \<open>0xC0000000\<close>, and an image table in which every
  image the function names has a descriptor. The \<open>BL32\<close> descriptor is staged at
  \<open>0xDE000000\<close> with skip-loading set and a maximum size of \<open>0x100000\<close>; the
  \<open>TOS_FW_CONFIG\<close> descriptor has a maximum size of \<open>0x2000\<close>.
\<close>

definition example_platform :: platform_def where
  "example_platform =
     \<lparr>STM32MP_DDR_BASE = 0xC0000000, STM32MP_DDR_S_SIZE = 0x01E00000,
      STM32MP_FW_CONFIG_BASE = 0x2FFC2000, STM32MP_FW_CONFIG_MAX_SIZE = 0x2000,
      IMAGE_ATTRIB_SKIP_LOADING = 2\<rparr>"

definition blank_node :: bl_mem_params_node_t where
  "blank_node =
     \<lparr>ep_info = \<lparr>pc = 0, lr_svc = 0, arg0 = 0, arg1 = 0, arg2 = 0\<rparr>,
      image_info = \<lparr>attr = 2, image_base = 0, image_max_size = 0\<rparr>\<rparr>"

definition bl32_node :: bl_mem_params_node_t where
  "bl32_node =
     \<lparr>ep_info = \<lparr>pc = 0, lr_svc = 0, arg0 = 7, arg1 = 0, arg2 = 0\<rparr>,
      image_info = \<lparr>attr = 2, image_base = 0xDE000000, image_max_size = 0x100000\<rparr>\<rparr>"

definition tos_fw_config_node :: bl_mem_params_node_t where
  "tos_fw_config_node =
     \<lparr>ep_info = \<lparr>pc = 0, lr_svc = 0, arg0 = 0, arg1 = 0, arg2 = 0\<rparr>,
      image_info = \<lparr>attr = 2, image_base = 0, image_max_size = 0x2000\<rparr>\<rparr>"

fun example_nodes :: "image_id \<Rightarrow> bl_mem_params_node_t option" where
  "example_nodes (OTHER_IMAGE_ID k) = None"
| "example_nodes BL32_IMAGE_ID = Some bl32_node"
| "example_nodes TOS_FW_CONFIG_ID = Some tos_fw_config_node"
| "example_nodes img = Some blank_node"

definition example_state :: bl2_state where
  "example_state = \<lparr>nodes = example_nodes, effects = []\<rparr>"

text \<open>
  The configuration of the example: \<open>BL32\<close> at \<open>0xDE000000\<close> and \<open>BL33\<close> at
  \<open>0xC0100000\<close>, both in DDR, the hardware configuration at \<open>0x2FFC0000\<close> below the
  DDR, no entry for \<open>TOS_FW_CONFIG\<close>.
\<close>

fun example_dyn_cfg :: "image_id \<Rightarrow> dyn_cfg_dtb_info_t option" where
  "example_dyn_cfg BL32_IMAGE_ID = Some \<lparr>config_addr = 0xDE000000, config_max_size = 0x1E00000\<rparr>"
| "example_dyn_cfg BL33_IMAGE_ID = Some \<lparr>config_addr = 0xC0100000, config_max_size = 0x1000000\<rparr>"
| "example_dyn_cfg HW_CONFIG_ID = Some \<lparr>config_addr = 0x2FFC0000, config_max_size = 0x2000\<rparr>"
| "example_dyn_cfg img = None"

text \<open>
  A cold boot of a plain (headerless) secure-OS image, and a resume with the DDR in
  self-refresh of a secure OS with a header, whose saved entry point \<open>0x40001000\<close> lies
  in the backup memory \<open>[0x40000000, 0x40010000)\<close>.
\<close>

definition cold_boot :: bl2_platform where
  "cold_boot =
     \<lparr>ddr_is_restored = False, dyn_cfg_dtb = example_dyn_cfg,
      dt_get_ddr_size = 0x20000000,
      get_optee_header_ep = (\<lambda>ep. None),
      pm_get_optee_ep = 0,
      addr_inside_backupsram = (\<lambda>a. 0x40000000 \<le> a \<and> a < 0x40010000),
      parse_optee_header = (\<lambda>ep pager paged. (0, ep, pager, paged))\<rparr>"

definition warm_resume :: bl2_platform where
  "warm_resume =
     cold_boot\<lparr>ddr_is_restored := True,
               get_optee_header_ep := (\<lambda>ep. Some 0xDE000000),
               pm_get_optee_ep := 0x40001000\<rparr>"


text \<open>
  The example table with a \<open>BL32\<close> descriptor whose maximum size is \<open>0xFFFFF000\<close>.
\<close>

definition huge_bl32_node :: bl_mem_params_node_t where
  "huge_bl32_node =
     \<lparr>ep_info = \<lparr>pc = 0, lr_svc = 0, arg0 = 7, arg1 = 0, arg2 = 0\<rparr>,
      image_info = \<lparr>attr = 2, image_base = 0xDE000000, image_max_size = 0xFFFFF000\<rparr>\<rparr>"

definition huge_state :: bl2_state where
  "huge_state = \<lparr>nodes = example_nodes(BL32_IMAGE_ID \<mapsto> huge_bl32_node), effects = []\<rparr>"

text \<open>
  Two observations of a call of the resolver: the maximum size it leaves in the
  descriptor of an image, and the value it returns (\<open>None\<close> when the call faults).
\<close>

definition max_size_after :: "image_id \<Rightarrow> fault + (bl2_state \<times> s32) \<Rightarrow> u32 option" where
  "max_size_after img res =
     (case res of
        Inl f \<Rightarrow> None
      | Inr (s, r) \<Rightarrow> map_option (\<lambda>n. image_max_size (image_info n)) (nodes s img))"


section \<open>Properties of \<open>update_monotonic_counter\<close>\<close>

text \<open>
  Claim C1 says that when the persisted counter \<open>v\<close> already satisfies
  \<open>v + 1 \<ge> 2 ^ V\<close> no write to the one-time-programmable word is performed, and that
  a repeated run never triggers another write. On a device whose counter word is
  \<open>0xFFFFFFFF\<close> the function, built with version 1, does otherwise: \<open>version + 1U\<close>
  wraps to 0, which is below \<open>BIT(1)\<close>, so \<open>bsec_program_otp(1, otp)\<close> is called;
  the counter stays \<open>0xFFFFFFFF\<close>, and the next boot programs the word again.
\<close>

theorem update_monotonic_counter_all_fused_programs:
  "persisted_counter bsec_all_fused = Some 0xFFFFFFFF \<and>
   (2::nat) ^ 1 \<le> unat (0xFFFFFFFF :: u32) + 1 \<and>
   map_sum id programmed (update_monotonic_counter 1 bsec_all_fused) = Inr [(1, 4)] \<and>
   map_sum id persisted_counter (update_monotonic_counter 1 bsec_all_fused) =
     Inr (Some 0xFFFFFFFF) \<and>
   map_sum id programmed (two_boots 1 1 bsec_all_fused) = Inr [(1, 4), (1, 4)]"
  by (simp add: two_boots_def update_monotonic_counter_def stm32_get_otp_index_def
      stm32_get_otp_value_def bsec_program_otp_def persisted_counter_def
      bsec_all_fused_def BIT_def BSEC_OK_def)

text \<open>
  Away from that word the function does what the claim says. For a version below 32 and
  a counter word other than \<open>0xFFFFFFFF\<close>, with a working security element: the run
  returns, the counter does not decrease and is at least \<open>2 ^ V - 1\<close> afterwards, it is
  left untouched (no call of \<open>bsec_program_otp\<close>) when \<open>v + 1 \<ge> 2 ^ V\<close>, and a
  second run with the same or a lower version changes nothing.
\<close>

lemma BIT_unat: "n < 32 \<Longrightarrow> unat (BIT n) = 2 ^ n"
proof -
  assume n: "n < 32"
  have "BIT n = (word_of_nat (2 ^ n) :: u32)" by (simp add: BIT_def)
  then have "unat (BIT n) = 2 ^ n mod 2 ^ 32" by (simp only: unat_of_nat) simp
  moreover have "(2::nat) ^ n < 2 ^ 32" by (rule power_strict_increasing) (use n in simp_all)
  ultimately show ?thesis by simp
qed

lemma BIT_m1: "n < 32 \<Longrightarrow> unat (BIT n - 1) = 2 ^ n - 1"
proof -
  assume n: "n < 32"
  have "1 \<le> BIT n" using BIT_unat[OF n] by (simp add: word_le_nat_alt)
  then show ?thesis using BIT_unat[OF n] by (simp add: unat_sub)
qed

lemma unat_plus1: "(v::u32) \<noteq> - 1 \<Longrightarrow> unat (v + 1) = unat v + 1"
  by (metis add.commute unatSuc Suc_eq_plus1 add_eq_0_iff)

lemma stale_iff:
  assumes "V < 32" "(v::u32) \<noteq> - 1"
  shows "(v + 1 < BIT V) = (unat v + 1 < 2 ^ V)"
  using assms by (simp add: word_less_nat_alt BIT_unat unat_plus1)

lemma unat_or_ge: "unat (y::u32) \<le> unat (x OR y)"
  by (simp add: word_le_nat_alt [symmetric] le_word_or1)

lemma or_mask_absorb:
  assumes "unat (v::u32) < 2 ^ V"
  shows "v OR (BIT V - 1) = BIT V - 1"
proof -
  have m: "BIT V - 1 = (mask V :: u32)"
    by (simp add: BIT_def mask_eq_exp_minus_1)
  have "int (unat v) < int (2 ^ V)"
    using assms by (simp only: of_nat_less_iff)
  moreover have "uint v = int (unat v)"
    by (simp only: uint_nat)
  moreover have "int (2 ^ V) = (2::int) ^ V"
    by simp
  ultimately have "uint v < 2 ^ V"
    by (simp only:)
  then have "v AND mask V = v"
    by (simp add: mask_eq_iff)
  then have "v OR mask V = (v AND mask V) OR mask V"
    by simp
  also have "\<dots> = mask V"
    by (simp add: or.commute)
  finally show ?thesis
    unfolding m .
qed

lemma update_monotonic_counter_in_range:
  assumes V: "V < 32" and idx: "monotonic_otp_index b = Some otp" and rd: "otp_value_ok b"
    and nm: "fuses b otp \<noteq> - 1" and ok: "program_result b (BIT V - 1) otp = BSEC_OK"
  shows "\<exists>b'. update_monotonic_counter V b = Inr b' \<and> 2 ^ V - 1 \<le> unat (fuses b' otp)
     \<and> unat (fuses b otp) \<le> unat (fuses b' otp)
     \<and> (2 ^ V \<le> unat (fuses b otp) + 1 \<longrightarrow> b' = b)"
proof (cases "unat (fuses b otp) + 1 < 2 ^ V")
  case True
  then have st: "fuses b otp + 1 < BIT V" using stale_iff[OF V nm] by simp
  have "update_monotonic_counter V b =
      Inr (b\<lparr>fuses := (fuses b)(otp := fuses b otp OR (BIT V - 1)),
             programmed := programmed b @ [(BIT V - 1, otp)]\<rparr>)"
    using idx rd st ok
    by (simp add: update_monotonic_counter_def stm32_get_otp_index_def
        stm32_get_otp_value_def bsec_program_otp_def Let_def)
  moreover have "2 ^ V - 1 \<le> unat (fuses b otp OR (BIT V - 1))"
    using unat_or_ge[of "BIT V - 1" "fuses b otp"] BIT_m1[OF V] by simp
  moreover have "unat (fuses b otp) \<le> unat (fuses b otp OR (BIT V - 1))"
    by (simp add: word_le_nat_alt [symmetric] le_word_or2)
  ultimately show ?thesis using True by simp
next
  case False
  then have st: "\<not> fuses b otp + 1 < BIT V" using stale_iff[OF V nm] by simp
  have "update_monotonic_counter V b = Inr b"
    using idx rd st
    by (simp add: update_monotonic_counter_def stm32_get_otp_index_def
        stm32_get_otp_value_def)
  then show ?thesis using False by simp
qed

lemma update_monotonic_counter_in_range_witness:
  "(3::nat) < 32 \<and> monotonic_otp_index bsec_fresh = Some 4 \<and> otp_value_ok bsec_fresh \<and>
   fuses bsec_fresh 4 \<noteq> - 1 \<and> program_result bsec_fresh (BIT 3 - 1) 4 = BSEC_OK \<and>
   map_sum id programmed (update_monotonic_counter 3 bsec_fresh) = Inr [(7, 4)] \<and>
   map_sum id persisted_counter (update_monotonic_counter 3 bsec_fresh) = Inr (Some 7)"
  using update_monotonic_counter_in_range [of 3 bsec_fresh 4]
  by (simp add: update_monotonic_counter_def stm32_get_otp_index_def
      stm32_get_otp_value_def bsec_program_otp_def persisted_counter_def
      bsec_fresh_def bsec_all_fused_def BIT_def BSEC_OK_def)

lemma update_monotonic_counter_repeat:
  assumes V: "V < 32" and V': "V' \<le> V"
    and idx: "monotonic_otp_index b = Some otp" and rd: "otp_value_ok b"
    and nm: "fuses b otp \<noteq> - 1" and ok: "\<forall>val. program_result b val otp = BSEC_OK"
  shows "\<exists>b'. update_monotonic_counter V b = Inr b' \<and> update_monotonic_counter V' b' = Inr b'"
proof -
  have V'32: "V' < 32" using V V' by simp
  have pw: "(2::nat) ^ V' \<le> 2 ^ V" using V' by (simp add: power_increasing)
  show ?thesis
  proof (cases "unat (fuses b otp) + 1 < 2 ^ V")
    case False
    then have "\<not> unat (fuses b otp) + 1 < 2 ^ V'" using pw by linarith
    then have st: "\<not> fuses b otp + 1 < BIT V" "\<not> fuses b otp + 1 < BIT V'"
      using False stale_iff[OF V nm] stale_iff[OF V'32 nm] by simp_all
    have "update_monotonic_counter V b = Inr b" "update_monotonic_counter V' b = Inr b"
      using idx rd st
      by (simp_all add: update_monotonic_counter_def stm32_get_otp_index_def
          stm32_get_otp_value_def)
    then show ?thesis by simp
  next
    case True
    then have st: "fuses b otp + 1 < BIT V" using stale_iff[OF V nm] by simp
    let ?b' = "b\<lparr>fuses := (fuses b)(otp := fuses b otp OR (BIT V - 1)),
             programmed := programmed b @ [(BIT V - 1, otp)]\<rparr>"
    have first: "update_monotonic_counter V b = Inr ?b'"
      using idx rd st ok
      by (simp add: update_monotonic_counter_def stm32_get_otp_index_def
          stm32_get_otp_value_def bsec_program_otp_def Let_def)
    have "unat (fuses b otp) < 2 ^ V" using True by simp
    then have new: "fuses ?b' otp = BIT V - 1" using or_mask_absorb by simp
    have p: "(2::nat) ^ V < 2 ^ 32"
      by (rule power_strict_increasing) (use V in simp_all)
    have p': "(2::nat) ^ V < 4294967296"
      using p by simp
    have m1: "unat (- 1 :: u32) = 4294967295"
      by (simp add: unsigned_minus_1_eq_mask mask_eq_exp_minus_1)
    have "(0::nat) < 2 ^ V"
      by simp
    then have "unat (BIT V - 1) < 4294967295"
      using BIT_m1[OF V] p' by linarith
    then have "unat (BIT V - 1) \<noteq> unat (- 1 :: u32)"
      using m1 by linarith
    then have nm': "fuses ?b' otp \<noteq> - 1" using new by auto
    have "unat (fuses ?b' otp) + 1 = 2 ^ V"
      using new BIT_m1[OF V] by simp
    then have "\<not> unat (fuses ?b' otp) + 1 < 2 ^ V'"
      using pw by linarith
    then have st': "\<not> fuses ?b' otp + 1 < BIT V'" using stale_iff[OF V'32 nm'] by simp
    have "update_monotonic_counter V' ?b' = Inr ?b'"
      using idx rd st'
      by (simp add: update_monotonic_counter_def stm32_get_otp_index_def
          stm32_get_otp_value_def)
    then show ?thesis using first by simp
  qed
qed

lemma update_monotonic_counter_repeat_witness:
  "(3::nat) < 32 \<and> (2::nat) \<le> 3 \<and>
   map_sum id programmed (two_boots 3 2 bsec_fresh) = Inr [(7, 4)] \<and>
   map_sum id persisted_counter (two_boots 3 2 bsec_fresh) = Inr (Some 7)"
  using update_monotonic_counter_repeat [of 3 2 bsec_fresh 4]
  by (simp add: two_boots_def update_monotonic_counter_def stm32_get_otp_index_def
      stm32_get_otp_value_def bsec_program_otp_def persisted_counter_def
      bsec_fresh_def bsec_all_fused_def BIT_def BSEC_OK_def)

section \<open>Properties of \<open>initialize_clock\<close>\<close>

lemmas clk_defs = initialize_clock_def set_cpu_supply_def apply_clk_init_def

lemmas board_defs = board_def board_resume_def board_resume_lost_def

subsection \<open>Waking up from standby\<close>

text \<open>
  Claim C3, as stated, says that a run with the warm-resume flag set never performs an
  operating-point search. It fails: on the board \<open>board_resume\<close>, which wakes up from
  standby with its context recovered and no PLL1 setting predefined in the device tree,
  the function calls \<open>stm32mp1_clk_get_maxfreq_opp\<close>, the search for the highest
  frequency in the table restored in RAM.
\<close>

theorem initialize_clock_resume_searches_opp:
  "is_wakeup_from_standby board_resume \<and>
   fst (initialize_clock board_resume) =
     [GetPll1SettingsFromContext, ClkGetMaxfreqOpp, RegulatorVoltageGet ''buck1'',
      ClkInit 650000] \<and>
   list_ex is_opp_search (fst (initialize_clock board_resume))"
  by (simp add: clk_defs board_defs)

text \<open>
  Claim C3, amended: when the function runs after a wake-up from standby it never calls
  the device-tree search \<open>dt_get_max_opp_freqvolt\<close>, and its first action is to recover
  the PLL1 settings from the retained context. If that recovery succeeds, no PLL1 setting
  is predefined and the function returns, then the only search is the one over the
  restored table (\<open>stm32mp1_clk_get_maxfreq_opp\<close>), it succeeded, and the frequency
  given to \<open>stm32mp1_clk_init\<close> is exactly the one that search answered: the result is
  a function of the saved context alone.
\<close>

theorem initialize_clock_resume_uses_saved_opp:
  assumes "is_wakeup_from_standby p"
  shows "DtGetMaxOppFreqvolt \<notin> set (fst (initialize_clock p)) \<and>
     take 1 (fst (initialize_clock p)) = [GetPll1SettingsFromContext] \<and>
     (get_pll1_settings_from_context p = 0 \<and> \<not> is_pll1_predefined p \<and>
      snd (initialize_clock p) = Returned \<longrightarrow>
        fst (clk_get_maxfreq_opp p) = 0 \<and>
        filter is_opp_search (fst (initialize_clock p)) = [ClkGetMaxfreqOpp] \<and>
        filter is_clk_init (fst (initialize_clock p)) =
          [ClkInit (fst (snd (clk_get_maxfreq_opp p)))])"
  using assms
  by (auto simp: clk_defs Let_def split: prod.splits option.splits if_splits)

theorem initialize_clock_resume_uses_saved_opp_witness:
  "is_wakeup_from_standby board_resume \<and>
   get_pll1_settings_from_context board_resume = 0 \<and>
   \<not> is_pll1_predefined board_resume \<and>
   snd (initialize_clock board_resume) = Returned \<and>
   DtGetMaxOppFreqvolt \<notin> set (fst (initialize_clock board_resume)) \<and>
   filter is_opp_search (fst (initialize_clock board_resume)) = [ClkGetMaxfreqOpp] \<and>
   filter is_clk_init (fst (initialize_clock board_resume)) = [ClkInit 650000]"
  using initialize_clock_resume_uses_saved_opp [of board_resume]
  by (simp add: clk_defs board_defs)

text \<open>
  Claim C10: when the function runs after a wake-up from standby and the recovery of the
  PLL1 settings from the retained context fails (a non-zero status), the whole search and
  voltage block is skipped: the only actions are the recovery attempt and
  \<open>stm32mp1_clk_init(0)\<close>. The failure does not halt the boot by itself: the function
  panics exactly when \<open>stm32mp1_clk_init(0)\<close> answers a negative value.
\<close>

theorem initialize_clock_context_lost:
  assumes "is_wakeup_from_standby p" and "get_pll1_settings_from_context p \<noteq> 0"
  shows "fst (initialize_clock p) = [GetPll1SettingsFromContext, ClkInit 0] \<and>
     (snd (initialize_clock p) = Panicked) = (sint (clk_init p 0) < 0)"
  using assms by (simp add: clk_defs)

theorem initialize_clock_context_lost_witness:
  "is_wakeup_from_standby board_resume_lost \<and>
   get_pll1_settings_from_context board_resume_lost \<noteq> 0 \<and>
   fst (initialize_clock board_resume_lost) = [GetPll1SettingsFromContext, ClkInit 0] \<and>
   snd (initialize_clock board_resume_lost) = Returned"
  using initialize_clock_context_lost [of board_resume_lost]
  by (simp add: clk_defs board_defs)

subsection \<open>The regulator\<close>

text \<open>
  Claim C4: when the search path is taken (no failed recovery, no predefined PLL1 setting),
  the search succeeds, a PMIC is present, the CPU supply has a name and the regulator can
  be read, then the regulator is written if and only if the voltage read back differs
  from the voltage of the selected operating point; the one write, if any, sets that
  voltage.
\<close>

theorem regulator_write_iff_voltage_differs:
  assumes "is_wakeup_from_standby p \<longrightarrow> get_pll1_settings_from_context p = 0"
    and "\<not> is_pll1_predefined p"
    and "(if is_wakeup_from_standby p then clk_get_maxfreq_opp p
          else dt_get_max_opp_freqvolt p) = (0, freq_khz, voltage_mv)"
    and "0 < sint (dt_pmic_status p)"
    and "get_cpu_supply_name p = Some name"
    and "0 \<le> sint (regulator_voltage_get p name)"
  shows "list_ex is_regulator_write (fst (initialize_clock p)) =
           (voltage_mv \<noteq> regulator_voltage_get p name) \<and>
         filter is_regulator_write (fst (initialize_clock p)) =
           (if voltage_mv \<noteq> regulator_voltage_get p name
            then [RegulatorVoltageSet name (ucast voltage_mv)] else [])"
  using assms
  by (auto simp: clk_defs Let_def split: prod.splits option.splits if_splits)

theorem regulator_write_iff_voltage_differs_witness:
  "\<not> is_wakeup_from_standby board \<and> \<not> is_pll1_predefined board \<and>
   dt_get_max_opp_freqvolt board = (0, 1200000, 1350) \<and>
   0 < sint (dt_pmic_status board) \<and> get_cpu_supply_name board = Some ''buck1'' \<and>
   regulator_voltage_get board ''buck1'' = 1200 \<and>
   list_ex is_regulator_write (fst (initialize_clock board)) \<and>
   filter is_regulator_write (fst (initialize_clock board)) =
     [RegulatorVoltageSet ''buck1'' 1350]"
  using regulator_write_iff_voltage_differs [of board 1200000 1350 "''buck1''"]
  by (simp add: clk_defs board_defs)

subsection \<open>Voltage before frequency\<close>

lemma apply_clk_init_butlast:
  "list_all (\<lambda>e. \<not> is_clk_init e) tr \<Longrightarrow>
   list_all (\<lambda>e. \<not> is_clk_init e) (butlast (fst (apply_clk_init p f tr)))"
  by (simp add: apply_clk_init_def)

lemma set_cpu_supply_butlast:
  assumes "list_all (\<lambda>e. \<not> is_clk_init e) tr"
  shows "list_all (\<lambda>e. \<not> is_clk_init e) (butlast (fst (set_cpu_supply p f v tr)))"
proof (cases "0 < sint (dt_pmic_status p)")
  case False
  then show ?thesis
    using apply_clk_init_butlast [OF assms] by (simp add: set_cpu_supply_def)
next
  case True
  note pmic = this
  show ?thesis
  proof (cases "get_cpu_supply_name p")
    case None
    then show ?thesis
      using pmic assms
      by (simp add: set_cpu_supply_def list_all_iff) (meson in_set_butlastD)
  next
    case (Some name)
    have rd: "list_all (\<lambda>e. \<not> is_clk_init e) (tr @ [RegulatorVoltageGet name])"
      using assms by simp
    have wr: "list_all (\<lambda>e. \<not> is_clk_init e)
        (tr @ [RegulatorVoltageGet name] @ [RegulatorVoltageSet name (ucast v)])"
      using assms by simp
    show ?thesis
      using pmic Some assms apply_clk_init_butlast [OF rd] apply_clk_init_butlast [OF wr]
      by (simp add: set_cpu_supply_def Let_def butlast_append)
  qed
qed

text \<open>Only the last action of a run can be the call of \<open>stm32mp1_clk_init\<close>.\<close>

lemma initialize_clock_butlast:
  "list_all (\<lambda>e. \<not> is_clk_init e) (butlast (fst (initialize_clock p)))"
proof -
  have a0: "list_all (\<lambda>e. \<not> is_clk_init e) []"
    by simp
  have a1: "list_all (\<lambda>e. \<not> is_clk_init e) [GetPll1SettingsFromContext]"
    by simp
  have a2: "list_all (\<lambda>e. \<not> is_clk_init e) [GetPll1SettingsFromContext, ClkGetMaxfreqOpp]"
    by simp
  have a3: "list_all (\<lambda>e. \<not> is_clk_init e) [DtGetMaxOppFreqvolt]"
    by simp
  show ?thesis
    using apply_clk_init_butlast [OF a0] apply_clk_init_butlast [OF a1]
      set_cpu_supply_butlast [OF a2] set_cpu_supply_butlast [OF a3]
    by (simp add: initialize_clock_def Let_def split: prod.splits)
qed

text \<open>
  Claim C5: in every run that both writes the regulator and gives a frequency to the
  clock driver, the regulator write comes strictly before the call of
  \<open>stm32mp1_clk_init\<close>: whenever the action at position \<open>i\<close> is a regulator write and
  the action at position \<open>j\<close> is the clock initialisation, \<open>i < j\<close>.
\<close>

theorem regulator_write_before_clk_init:
  assumes i: "i < length (fst (initialize_clock p))"
    and j: "j < length (fst (initialize_clock p))"
    and wi: "is_regulator_write (fst (initialize_clock p) ! i)"
    and cj: "is_clk_init (fst (initialize_clock p) ! j)"
  shows "i < j"
proof -
  let ?tr = "fst (initialize_clock p)"
  have bl: "list_all (\<lambda>e. \<not> is_clk_init e) (butlast ?tr)"
    by (rule initialize_clock_butlast)
  have "\<not> j < length (butlast ?tr)"
  proof
    assume lt: "j < length (butlast ?tr)"
    then have "\<not> is_clk_init (butlast ?tr ! j)"
      using bl by (simp add: list_all_length)
    then show False
      using cj lt by (simp add: nth_butlast)
  qed
  then have jl: "j = length ?tr - 1"
    using j by simp
  have "i \<noteq> j"
  proof
    assume "i = j"
    then show False
      using wi cj by (cases "?tr ! j") simp_all
  qed
  then show ?thesis
    using i jl by simp
qed

text \<open>
  The cold boot of the specification's scenario: the search answers 1200000 kHz at
  1350 mV, the regulator is at 1200 mV; 1350 mV is written, then 1200000 kHz applied.
\<close>

theorem regulator_write_before_clk_init_witness:
  "fst (initialize_clock board) =
     [DtGetMaxOppFreqvolt, RegulatorVoltageGet ''buck1'',
      RegulatorVoltageSet ''buck1'' 1350, ClkInit 1200000] \<and>
   is_regulator_write (fst (initialize_clock board) ! 2) \<and>
   is_clk_init (fst (initialize_clock board) ! 3) \<and> (2::nat) < 3"
  using regulator_write_before_clk_init [of 2 board 3]
  by (simp add: clk_defs board_defs)

section \<open>Properties of the resolver\<close>

lemmas example_defs = example_platform_def example_state_def cold_boot_def warm_resume_def
  blank_node_def bl32_node_def tos_fw_config_node_def

subsection \<open>One turn of the loop, and the loop\<close>

text \<open>A turn writes only the descriptor of its image and those of the two extra images.\<close>

lemma fw_config_image_other:
  assumes "fw_config_image pd env img t = Inr (t', r)"
    and "j \<noteq> img" and "j \<noteq> BL32_EXTRA1_IMAGE_ID" and "j \<noteq> BL32_EXTRA2_IMAGE_ID"
  shows "t' j = t j"
  using assms
  by (cases img) (auto simp: fw_config_image_def Let_def split: option.splits if_splits)

lemma fw_config_loop_other:
  assumes "fw_config_loop pd env imgs t = Inr (t', r)"
    and "j \<notin> set imgs" and "j \<noteq> BL32_EXTRA1_IMAGE_ID" and "j \<noteq> BL32_EXTRA2_IMAGE_ID"
  shows "t' j = t j"
  using assms
proof (induction imgs arbitrary: t)
  case Nil
  then show ?case by simp
next
  case (Cons a imgs)
  from Cons.prems(1) obtain ta ra where st: "fw_config_image pd env a t = Inr (ta, ra)"
    by (auto split: sum.splits)
  have "ta j = t j" using fw_config_image_other[OF st] Cons.prems by simp
  show ?case
  proof (cases ra)
    case None
    then have "fw_config_loop pd env imgs ta = Inr (t', r)" using Cons.prems(1) st by simp
    then have "t' j = ta j" using Cons.IH Cons.prems by simp
    then show ?thesis using \<open>ta j = t j\<close> by simp
  next
    case (Some x)
    then have "t' = ta" using Cons.prems(1) st by simp
    then show ?thesis using \<open>ta j = t j\<close> by simp
  qed
qed

text \<open>For the identifiers of \<open>image_ids\<close> no turn returns: the loop comes to its end.\<close>

lemma fw_config_image_fixed:
  assumes "fw_config_image pd env img t = Inr (t', r)" and "img \<in> set image_ids"
  shows "r = None"
  using assms
  by (auto simp: fw_config_image_def image_ids_def Let_def split: option.splits if_splits)

lemma fw_config_loop_fixed:
  assumes "fw_config_loop pd env imgs t = Inr (t', r)" and "set imgs \<subseteq> set image_ids"
  shows "r = None"
  using assms
proof (induction imgs arbitrary: t)
  case Nil
  then show ?case by simp
next
  case (Cons a imgs)
  from Cons.prems(1) obtain ta ra where st: "fw_config_image pd env a t = Inr (ta, ra)"
    by (auto split: sum.splits)
  have "ra = None" using fw_config_image_fixed[OF st] Cons.prems(2) by simp
  then have "fw_config_loop pd env imgs ta = Inr (t', r)" using Cons.prems(1) st by simp
  then show ?case using Cons.IH Cons.prems(2) by simp
qed

text \<open>
  After a loop that came to its end, the descriptor of an image of the array is the one
  its own turn left, and that turn found the descriptor as it was before the loop.
\<close>

lemma fw_config_loop_at:
  assumes "fw_config_loop pd env imgs t = Inr (t', None)"
    and "distinct imgs" and "img \<in> set imgs"
    and "img \<noteq> BL32_EXTRA1_IMAGE_ID" and "img \<noteq> BL32_EXTRA2_IMAGE_ID"
  shows "\<exists>t0 t1. t0 img = t img \<and> fw_config_image pd env img t0 = Inr (t1, None) \<and>
           t' img = t1 img"
  using assms
proof (induction imgs arbitrary: t)
  case Nil
  then show ?case by simp
next
  case (Cons a imgs)
  from Cons.prems(1) obtain ta ra where st: "fw_config_image pd env a t = Inr (ta, ra)"
    by (auto split: sum.splits)
  have ra: "ra = None" using Cons.prems(1) st by (cases ra) auto
  have rest: "fw_config_loop pd env imgs ta = Inr (t', None)" using Cons.prems(1) st ra by simp
  show ?case
  proof (cases "img = a")
    case True
    then have "img \<notin> set imgs" using Cons.prems(2) by simp
    then have "t' img = ta img" using fw_config_loop_other[OF rest] Cons.prems(4,5) by simp
    then show ?thesis using st ra True by blast
  next
    case False
    then have in_rest: "img \<in> set imgs" using Cons.prems(3) by simp
    have same: "ta img = t img" using fw_config_image_other[OF st] False Cons.prems(4,5) by simp
    obtain t0 t1 where "t0 img = ta img" "fw_config_image pd env img t0 = Inr (t1, None)" "t' img = t1 img"
      using Cons.IH[OF rest _ in_rest Cons.prems(4,5)] Cons.prems(2) by auto
    then show ?thesis using same by metis
  qed
qed

text \<open>What the turn of an image that has a configuration entry leaves in its descriptor.\<close>

lemma fw_config_image_at:
  assumes "fw_config_image pd env img t = Inr (t', r)"
    and "t img = Some n" and "dyn_cfg_dtb env img = Some ci"
  shows "\<exists>n'. t' img = Some n' \<and>
     attr (image_info n') =
       (if ddr_is_restored env \<and> STM32MP_DDR_BASE pd \<le> config_addr ci
        then attr (image_info n)
        else attr (image_info n) AND NOT (IMAGE_ATTRIB_SKIP_LOADING pd)) \<and>
     image_base (image_info n') = config_addr ci \<and>
     image_max_size (image_info n') = config_max_size ci \<and>
     (img = BL33_IMAGE_ID \<longrightarrow>
        pc (ep_info n') = (if ddr_is_restored env then 0 else config_addr ci))"
  using assms
  by (cases img) (auto simp: fw_config_image_def Let_def split: option.splits if_splits)

lemma fw_config_image_node:
  assumes "fw_config_image pd env img t = Inr (t', r)"
  shows "\<exists>n. t img = Some n"
  using assms by (cases "t img") (simp_all add: fw_config_image_def)

lemma handle_fw_config_Inr:
  assumes "handle_fw_config pd env image_ids s = Inr (s', r)"
  shows "fw_config_loop pd env image_ids (nodes s) = Inr (nodes s', None) \<and> r = 0"
proof -
  obtain t ro where lp: "fw_config_loop pd env image_ids (nodes s) = Inr (t, ro)"
    using assms by (auto simp: handle_fw_config_def Let_def split: sum.splits)
  have "ro = None" using fw_config_loop_fixed[OF lp] by simp
  then show ?thesis using assms lp by (auto simp: handle_fw_config_def Let_def)
qed

lemma post_load_fw_config_at:
  assumes run: "bl2_plat_handle_post_image_load pd env FW_CONFIG_ID s = Inr (s', r)"
    and img: "img \<in> set image_ids"
    and cfg: "dyn_cfg_dtb env img = Some ci"
    and nd: "nodes s img = Some n"
  shows "\<exists>n'. nodes s' img = Some n' \<and>
     attr (image_info n') =
       (if ddr_is_restored env \<and> STM32MP_DDR_BASE pd \<le> config_addr ci
        then attr (image_info n)
        else attr (image_info n) AND NOT (IMAGE_ATTRIB_SKIP_LOADING pd)) \<and>
     image_base (image_info n') = config_addr ci \<and>
     image_max_size (image_info n') = config_max_size ci \<and>
     (img = BL33_IMAGE_ID \<longrightarrow>
        pc (ep_info n') = (if ddr_is_restored env then 0 else config_addr ci))"
proof -
  have "handle_fw_config pd env image_ids s = Inr (s', r)"
    using run by (simp add: bl2_plat_handle_post_image_load_def split: option.splits)
  then have lp: "fw_config_loop pd env image_ids (nodes s) = Inr (nodes s', None)"
    using handle_fw_config_Inr by blast
  have d: "distinct image_ids" by (simp add: image_ids_def)
  have ne: "img \<noteq> BL32_EXTRA1_IMAGE_ID" "img \<noteq> BL32_EXTRA2_IMAGE_ID"
    using img by (auto simp: image_ids_def)
  obtain t0 t1 where t0: "t0 img = nodes s img"
    and st: "fw_config_image pd env img t0 = Inr (t1, None)" and fin: "nodes s' img = t1 img"
    using fw_config_loop_at[OF lp d img ne] by blast
  show ?thesis using fw_config_image_at[OF st _ cfg, of n] t0 nd fin by simp
qed

text \<open>
  The \<open>FW_CONFIG_ID\<close> case returns 0 whenever the images it names have descriptors.
\<close>

lemma fw_config_image_returns:
  assumes "t img \<noteq> None" and "t BL32_EXTRA1_IMAGE_ID \<noteq> None" and "t BL32_EXTRA2_IMAGE_ID \<noteq> None"
  shows "\<exists>t' r. fw_config_image pd env img t = Inr (t', r) \<and> (\<forall>j. t j \<noteq> None \<longrightarrow> t' j \<noteq> None)"
  using assms
  by (cases img) (auto simp: fw_config_image_def Let_def split: option.splits)

lemma fw_config_loop_returns:
  assumes "\<forall>img \<in> set imgs. t img \<noteq> None"
    and "t BL32_EXTRA1_IMAGE_ID \<noteq> None" and "t BL32_EXTRA2_IMAGE_ID \<noteq> None"
  shows "\<exists>t' r. fw_config_loop pd env imgs t = Inr (t', r)"
  using assms
proof (induction imgs arbitrary: t)
  case Nil
  then show ?case by simp
next
  case (Cons a imgs)
  obtain ta ra where st: "fw_config_image pd env a t = Inr (ta, ra)"
    and keep: "\<forall>j. t j \<noteq> None \<longrightarrow> ta j \<noteq> None"
    using fw_config_image_returns[of t a pd env] Cons.prems by auto
  show ?case
  proof (cases ra)
    case None
    have "\<exists>t' r. fw_config_loop pd env imgs ta = Inr (t', r)"
      using Cons.IH[of ta] keep Cons.prems by simp
    then show ?thesis using st None by simp
  next
    case (Some x)
    then show ?thesis using st by simp
  qed
qed

lemma post_load_fw_config_returns:
  assumes "nodes s FW_CONFIG_ID \<noteq> None"
    and "\<forall>img \<in> set image_ids. nodes s img \<noteq> None"
    and "nodes s BL32_EXTRA1_IMAGE_ID \<noteq> None" and "nodes s BL32_EXTRA2_IMAGE_ID \<noteq> None"
  shows "\<exists>s'. bl2_plat_handle_post_image_load pd env FW_CONFIG_ID s = Inr (s', 0)"
proof -
  obtain t r where lp: "fw_config_loop pd env image_ids (nodes s) = Inr (t, r)"
    using fw_config_loop_returns[OF assms(2,3,4)] by blast
  have "r = None" using fw_config_loop_fixed[OF lp] by simp
  then show ?thesis using assms(1) lp
    by (auto simp: bl2_plat_handle_post_image_load_def handle_fw_config_def Let_def)
qed

lemma example_nodes_present:
  "nodes example_state FW_CONFIG_ID \<noteq> None"
  "\<forall>img \<in> set image_ids. nodes example_state img \<noteq> None"
  "nodes example_state BL32_EXTRA1_IMAGE_ID \<noteq> None"
  "nodes example_state BL32_EXTRA2_IMAGE_ID \<noteq> None"
  by (simp_all add: example_state_def image_ids_def)

subsection \<open>The aggregate configuration image\<close>

text \<open>
  Claim C2: in the \<open>FW_CONFIG_ID\<close> case, for every image of the fixed set that has a
  configuration entry, the skip-loading attribute is cleared if and only if it is not the
  case that the DDR was restored and the configured base address is at or above
  \<open>STM32MP_DDR_BASE\<close>; otherwise the attribute word is left as it was.
\<close>

theorem skip_loading_cleared_iff_not_retained:
  assumes run: "bl2_plat_handle_post_image_load pd env FW_CONFIG_ID s = Inr (s', r)"
    and img: "img \<in> set image_ids"
    and cfg: "dyn_cfg_dtb env img = Some ci"
    and nd: "nodes s img = Some n"
  shows "\<exists>n'. nodes s' img = Some n' \<and>
     attr (image_info n') =
       (if \<not> (ddr_is_restored env \<and> STM32MP_DDR_BASE pd \<le> config_addr ci)
        then attr (image_info n) AND NOT (IMAGE_ATTRIB_SKIP_LOADING pd)
        else attr (image_info n))"
  using post_load_fw_config_at[OF assms] by auto

theorem skip_loading_cleared_iff_not_retained_witness:
  "\<exists>s'. bl2_plat_handle_post_image_load example_platform warm_resume FW_CONFIG_ID example_state = Inr (s', 0) \<and>
     ddr_is_restored warm_resume \<and>
     HW_CONFIG_ID \<in> set image_ids \<and> BL33_IMAGE_ID \<in> set image_ids \<and>
     dyn_cfg_dtb warm_resume HW_CONFIG_ID = Some \<lparr>config_addr = 0x2FFC0000, config_max_size = 0x2000\<rparr> \<and>
     dyn_cfg_dtb warm_resume BL33_IMAGE_ID = Some \<lparr>config_addr = 0xC0100000, config_max_size = 0x1000000\<rparr> \<and>
     nodes example_state HW_CONFIG_ID = Some blank_node \<and>
     nodes example_state BL33_IMAGE_ID = Some blank_node \<and>
     attr (image_info blank_node) = 2 \<and>
     map_option (\<lambda>n'. attr (image_info n')) (nodes s' HW_CONFIG_ID) = Some 0 \<and>
     map_option (\<lambda>n'. attr (image_info n')) (nodes s' BL33_IMAGE_ID) = Some 2"
proof -
  obtain s' where run:
    "bl2_plat_handle_post_image_load example_platform warm_resume FW_CONFIG_ID example_state = Inr (s', 0)"
    using post_load_fw_config_returns [OF example_nodes_present] by blast
  have hw: "HW_CONFIG_ID \<in> set image_ids" and b33: "BL33_IMAGE_ID \<in> set image_ids"
    by (simp_all add: image_ids_def)
  have chw: "dyn_cfg_dtb warm_resume HW_CONFIG_ID = Some \<lparr>config_addr = 0x2FFC0000, config_max_size = 0x2000\<rparr>"
    and c33: "dyn_cfg_dtb warm_resume BL33_IMAGE_ID = Some \<lparr>config_addr = 0xC0100000, config_max_size = 0x1000000\<rparr>"
    by (simp_all add: example_defs)
  have nhw: "nodes example_state HW_CONFIG_ID = Some blank_node"
    and n33: "nodes example_state BL33_IMAGE_ID = Some blank_node"
    by (simp_all add: example_defs)
  have w: "ddr_is_restored warm_resume" by (simp add: example_defs)
  have "map_option (\<lambda>n'. attr (image_info n')) (nodes s' HW_CONFIG_ID) = Some 0"
    using skip_loading_cleared_iff_not_retained [OF run hw chw nhw] by (auto simp: example_defs)
  moreover have "map_option (\<lambda>n'. attr (image_info n')) (nodes s' BL33_IMAGE_ID) = Some 2"
    using skip_loading_cleared_iff_not_retained [OF run b33 c33 n33] by (auto simp: example_defs)
  moreover have "attr (image_info blank_node) = 2" by (simp add: example_defs)
  ultimately show ?thesis using run hw b33 chw c33 nhw n33 w by blast
qed

text \<open>
  Claim C8: in the \<open>FW_CONFIG_ID\<close> case, when \<open>BL33\<close> has a configuration entry, its
  entry program counter is 0 if the DDR was restored, and the configured base address
  otherwise.
\<close>

theorem fw_config_bl33_entry:
  assumes run: "bl2_plat_handle_post_image_load pd env FW_CONFIG_ID s = Inr (s', r)"
    and cfg: "dyn_cfg_dtb env BL33_IMAGE_ID = Some ci"
  shows "\<exists>n'. nodes s' BL33_IMAGE_ID = Some n' \<and>
     pc (ep_info n') = (if ddr_is_restored env then 0 else config_addr ci)"
proof -
  have "handle_fw_config pd env image_ids s = Inr (s', r)"
    using run by (simp add: bl2_plat_handle_post_image_load_def split: option.splits)
  then have lp: "fw_config_loop pd env image_ids (nodes s) = Inr (nodes s', None)"
    using handle_fw_config_Inr by blast
  have d: "distinct image_ids" and i: "BL33_IMAGE_ID \<in> set image_ids"
    by (simp_all add: image_ids_def)
  obtain t0 t1 where t0: "t0 BL33_IMAGE_ID = nodes s BL33_IMAGE_ID"
    and st: "fw_config_image pd env BL33_IMAGE_ID t0 = Inr (t1, None)"
    using fw_config_loop_at[OF lp d i] by auto
  obtain n where nd: "nodes s BL33_IMAGE_ID = Some n"
    using fw_config_image_node[OF st] t0 by auto
  show ?thesis using post_load_fw_config_at[OF run _ cfg nd] by (auto simp: image_ids_def)
qed

theorem fw_config_bl33_entry_witness:
  "\<exists>s' s''.
     bl2_plat_handle_post_image_load example_platform cold_boot FW_CONFIG_ID example_state = Inr (s', 0) \<and>
     bl2_plat_handle_post_image_load example_platform warm_resume FW_CONFIG_ID example_state = Inr (s'', 0) \<and>
     \<not> ddr_is_restored cold_boot \<and> ddr_is_restored warm_resume \<and>
     dyn_cfg_dtb cold_boot BL33_IMAGE_ID = Some \<lparr>config_addr = 0xC0100000, config_max_size = 0x1000000\<rparr> \<and>
     dyn_cfg_dtb warm_resume BL33_IMAGE_ID = Some \<lparr>config_addr = 0xC0100000, config_max_size = 0x1000000\<rparr> \<and>
     map_option (\<lambda>n'. pc (ep_info n')) (nodes s' BL33_IMAGE_ID) = Some 0xC0100000 \<and>
     map_option (\<lambda>n'. pc (ep_info n')) (nodes s'' BL33_IMAGE_ID) = Some 0"
proof -
  obtain s' where cold:
    "bl2_plat_handle_post_image_load example_platform cold_boot FW_CONFIG_ID example_state = Inr (s', 0)"
    using post_load_fw_config_returns [OF example_nodes_present] by blast
  obtain s'' where warm:
    "bl2_plat_handle_post_image_load example_platform warm_resume FW_CONFIG_ID example_state = Inr (s'', 0)"
    using post_load_fw_config_returns [OF example_nodes_present] by blast
  have cc: "dyn_cfg_dtb cold_boot BL33_IMAGE_ID = Some \<lparr>config_addr = 0xC0100000, config_max_size = 0x1000000\<rparr>"
    and cw: "dyn_cfg_dtb warm_resume BL33_IMAGE_ID = Some \<lparr>config_addr = 0xC0100000, config_max_size = 0x1000000\<rparr>"
    by (simp_all add: example_defs)
  have fl: "\<not> ddr_is_restored cold_boot" "ddr_is_restored warm_resume"
    by (simp_all add: example_defs)
  have "map_option (\<lambda>n'. pc (ep_info n')) (nodes s' BL33_IMAGE_ID) = Some 0xC0100000"
    using fw_config_bl33_entry [OF cold cc] fl by auto
  moreover have "map_option (\<lambda>n'. pc (ep_info n')) (nodes s'' BL33_IMAGE_ID) = Some 0"
    using fw_config_bl33_entry [OF warm cw] fl by auto
  ultimately show ?thesis using cold warm cc cw fl by blast
qed

text \<open>The loop over an array in two parts, and the turn of a stray identifier.\<close>

lemma fw_config_loop_append:
  "fw_config_loop pd env (xs @ ys) t =
     (case fw_config_loop pd env xs t of
        Inl f \<Rightarrow> Inl f
      | Inr (t', Some r) \<Rightarrow> Inr (t', Some r)
      | Inr (t', None) \<Rightarrow> fw_config_loop pd env ys t')"
  by (induction xs arbitrary: t) (auto split: sum.splits option.splits)

lemma fw_config_image_stray:
  assumes "img \<notin> set image_ids" and "t img = Some n" and "dyn_cfg_dtb env img = Some ci"
  shows "\<exists>t'. fw_config_image pd env img t = Inr (t', Some (- EINVAL))"
  using assms
  by (cases img) (auto simp: fw_config_image_def image_ids_def Let_def)

text \<open>
  The \<open>default\<close> branch of the inner \<open>switch\<close>: were the loop run over an array
  that holds an identifier outside the fixed set, with a descriptor and a configuration
  entry, the case would return \<open>-EINVAL\<close> there.
\<close>

lemma handle_fw_config_default_branch:
  assumes pre: "fw_config_loop pd env pre (nodes s) = Inr (t, None)"
    and out: "img \<notin> set image_ids"
    and nd: "t img = Some n"
    and cfg: "dyn_cfg_dtb env img = Some ci"
  shows "\<exists>s'. handle_fw_config pd env (pre @ img # post) s = Inr (s', - EINVAL)"
proof -
  obtain t' where st: "fw_config_image pd env img t = Inr (t', Some (- EINVAL))"
    using fw_config_image_stray [of img t n env ci pd] out nd cfg by blast
  have "fw_config_loop pd env (pre @ img # post) (nodes s) = Inr (t', Some (- EINVAL))"
    using pre st by (simp add: fw_config_loop_append)
  then show ?thesis by (simp add: handle_fw_config_def Let_def)
qed




subsection \<open>The secure-OS image\<close>

text \<open>
  Claim C6: when the resolver handles \<open>BL32\<close>, the header is recognised, the DDR was
  restored and the saved entry point lies in the backup memory, the only action is the
  enabling of the backup memory clock, the function returns 0, and no image information
  (attributes, base, maximum size) of any descriptor changes: the single write is the
  entry program counter of \<open>BL32\<close>, set to the saved entry point.
\<close>

theorem bl32_resume_in_backupsram_frame:
  assumes nd: "nodes s BL32_IMAGE_ID = Some n"
    and hdr: "get_optee_header_ep env ((ep_info n)\<lparr>pc := image_base (image_info n)\<rparr>) = Some pc'"
    and warm: "ddr_is_restored env"
    and bkp: "addr_inside_backupsram env (pm_get_optee_ep env)"
  shows "\<exists>s'. bl2_plat_handle_post_image_load pd env BL32_IMAGE_ID s = Inr (s', 0) \<and>
     effects s' = effects s @ [ClkEnableBKPSRAM] \<and>
     (\<forall>img. map_option image_info (nodes s' img) = map_option image_info (nodes s img)) \<and>
     (\<forall>img. img \<noteq> BL32_IMAGE_ID \<longrightarrow> nodes s' img = nodes s img) \<and>
     map_option (\<lambda>n'. pc (ep_info n')) (nodes s' BL32_IMAGE_ID) = Some (pm_get_optee_ep env)"
  using assms
  by (simp add: bl2_plat_handle_post_image_load_def handle_bl32_def Let_def)

theorem bl32_resume_in_backupsram_frame_witness:
  "nodes example_state BL32_IMAGE_ID = Some bl32_node \<and>
   get_optee_header_ep warm_resume ((ep_info bl32_node)\<lparr>pc := image_base (image_info bl32_node)\<rparr>) = Some 0xDE000000 \<and>
   ddr_is_restored warm_resume \<and>
   pm_get_optee_ep warm_resume = 0x40001000 \<and>
   addr_inside_backupsram warm_resume 0x40001000 \<and>
   (\<exists>s'. bl2_plat_handle_post_image_load example_platform warm_resume BL32_IMAGE_ID example_state = Inr (s', 0) \<and>
     effects s' = [ClkEnableBKPSRAM] \<and>
     map_option image_info (nodes s' BL32_IMAGE_ID) = Some (image_info bl32_node) \<and>
     map_option image_info (nodes s' BL32_EXTRA1_IMAGE_ID) = Some (image_info blank_node) \<and>
     map_option image_info (nodes s' BL32_EXTRA2_IMAGE_ID) = Some (image_info blank_node) \<and>
     map_option (\<lambda>n'. pc (ep_info n')) (nodes s' BL32_IMAGE_ID) = Some 0x40001000)"
proof -
  have h1: "nodes example_state BL32_IMAGE_ID = Some bl32_node"
    and h2: "get_optee_header_ep warm_resume ((ep_info bl32_node)\<lparr>pc := image_base (image_info bl32_node)\<rparr>) = Some 0xDE000000"
    and h3: "ddr_is_restored warm_resume"
    and ep: "pm_get_optee_ep warm_resume = 0x40001000"
    and h4: "addr_inside_backupsram warm_resume (pm_get_optee_ep warm_resume)"
    by (simp_all add: example_defs)
  obtain s' where run: "bl2_plat_handle_post_image_load example_platform warm_resume BL32_IMAGE_ID example_state = Inr (s', 0)"
    and eff: "effects s' = effects example_state @ [ClkEnableBKPSRAM]"
    and fr: "\<forall>img. map_option image_info (nodes s' img) = map_option image_info (nodes example_state img)"
    and en: "map_option (\<lambda>n'. pc (ep_info n')) (nodes s' BL32_IMAGE_ID) = Some (pm_get_optee_ep warm_resume)"
    using bl32_resume_in_backupsram_frame [OF h1 h2 h3 h4, of example_platform] by blast
  have "effects s' = [ClkEnableBKPSRAM]" using eff by (simp add: example_state_def)
  moreover have "map_option image_info (nodes s' BL32_IMAGE_ID) = Some (image_info bl32_node)"
    using fr by (simp add: example_state_def)
  moreover have "map_option image_info (nodes s' BL32_EXTRA1_IMAGE_ID) = Some (image_info blank_node)"
    using fr by (simp add: example_state_def)
  moreover have "map_option image_info (nodes s' BL32_EXTRA2_IMAGE_ID) = Some (image_info blank_node)"
    using fr by (simp add: example_state_def)
  ultimately show ?thesis using h1 h2 h3 h4 ep run en by auto
qed

text \<open>
  Claim C9, as stated, says that the resulting maximum size of \<open>BL32\<close> is the sum of
  the two maximum sizes. The addition is made in \<open>uint32_t\<close>: with \<open>0xFFFFF000\<close> for
  \<open>BL32\<close> and \<open>0x2000\<close> for \<open>TOS_FW_CONFIG\<close> the sum is 4294971392 and the
  resulting maximum size is \<open>0x1000\<close>.
\<close>

theorem bl32_plain_image_max_size_wraps:
  "nodes huge_state BL32_IMAGE_ID = Some huge_bl32_node \<and>
   get_optee_header_ep cold_boot
     ((ep_info huge_bl32_node)\<lparr>pc := image_base (image_info huge_bl32_node)\<rparr>) = None \<and>
   nodes huge_state TOS_FW_CONFIG_ID = Some tos_fw_config_node \<and>
   unat (image_max_size (image_info huge_bl32_node)) +
     unat (image_max_size (image_info tos_fw_config_node)) = 4294971392 \<and>
   max_size_after BL32_IMAGE_ID
     (bl2_plat_handle_post_image_load example_platform cold_boot BL32_IMAGE_ID huge_state) =
     Some 4096"
  by (simp add: max_size_after_def bl2_plat_handle_post_image_load_def handle_bl32_def
      save_bl2_param_if_ddr_def huge_state_def huge_bl32_node_def example_defs Let_def)

text \<open>
  Claim C9, amended: when the resolver handles \<open>BL32\<close>, no header is recognised and
  the \<open>TOS_FW_CONFIG\<close> image has a descriptor, the maximum size of \<open>BL32\<close> becomes
  the sum of the two maximum sizes modulo \<open>2 ^ 32\<close> (the \<open>uint32_t\<close> sum), which is
  the sum of the two numbers whenever that fits in 32 bits, and \<open>arg0\<close> of its entry
  point is 0.
\<close>

theorem bl32_plain_image_max_size:
  assumes nd: "nodes s BL32_IMAGE_ID = Some n"
    and plain: "get_optee_header_ep env ((ep_info n)\<lparr>pc := image_base (image_info n)\<rparr>) = None"
    and tos: "nodes s TOS_FW_CONFIG_ID = Some tos"
  shows "\<exists>s' n'. bl2_plat_handle_post_image_load pd env BL32_IMAGE_ID s = Inr (s', 0) \<and>
     nodes s' BL32_IMAGE_ID = Some n' \<and>
     image_max_size (image_info n') =
       image_max_size (image_info n) + image_max_size (image_info tos) \<and>
     (unat (image_max_size (image_info n)) + unat (image_max_size (image_info tos)) < 2 ^ 32 \<longrightarrow>
        unat (image_max_size (image_info n')) =
          unat (image_max_size (image_info n)) + unat (image_max_size (image_info tos))) \<and>
     arg0 (ep_info n') = 0"
proof -
  have u: "unat (image_max_size (image_info n)) + unat (image_max_size (image_info tos)) < 2 ^ 32 \<Longrightarrow>
        unat (image_max_size (image_info n) + image_max_size (image_info tos)) =
          unat (image_max_size (image_info n)) + unat (image_max_size (image_info tos))"
    using unat_add_lem[of "image_max_size (image_info n)" "image_max_size (image_info tos)"] by simp
  show ?thesis using assms u
    by (simp add: bl2_plat_handle_post_image_load_def handle_bl32_def save_bl2_param_if_ddr_def Let_def)
qed

theorem bl32_plain_image_max_size_witness:
  "nodes example_state BL32_IMAGE_ID = Some bl32_node \<and>
   get_optee_header_ep cold_boot ((ep_info bl32_node)\<lparr>pc := image_base (image_info bl32_node)\<rparr>) = None \<and>
   nodes example_state TOS_FW_CONFIG_ID = Some tos_fw_config_node \<and>
   image_max_size (image_info bl32_node) = 0x100000 \<and>
   image_max_size (image_info tos_fw_config_node) = 0x2000 \<and>
   arg0 (ep_info bl32_node) = 7 \<and>
   (\<exists>s' n'. bl2_plat_handle_post_image_load example_platform cold_boot BL32_IMAGE_ID example_state = Inr (s', 0) \<and>
     nodes s' BL32_IMAGE_ID = Some n' \<and>
     image_max_size (image_info n') = 0x102000 \<and> arg0 (ep_info n') = 0)"
  using bl32_plain_image_max_size [of example_state bl32_node cold_boot tos_fw_config_node example_platform]
  by (auto simp: example_defs)


end
